theory Spec2Isabelle
  imports Complex_Main
begin

section \<open>Deep Zoom tile geometry of gopenslide\<close>

text \<open>
  A shallow embedding of \<^verbatim>\<open>deepzoom.go\<close> and of the helpers of \<^verbatim>\<open>helpers.go\<close> it
  calls. Go's \<^verbatim>\<open>int\<close>, \<^verbatim>\<open>int32\<close> and \<^verbatim>\<open>int64\<close> are modelled as \<^typ>\<open>int\<close> and
  \<^verbatim>\<open>float64\<close> as \<^typ>\<open>real\<close>: the embedding computes what the code computes as long as
  every integer converted to \<^verbatim>\<open>float64\<close> is below \<open>2^53\<close> in magnitude, every downsample
  factor is finite and the tile size is not zero. A run-time panic of the Go program is a
  value of the error type, next to the two errors the code returns itself.
  Methods of \<^verbatim>\<open>*DeepZoomGenerator\<close> carry the prefix \<open>dz_\<close>, since records and their
  fields already use the plain names.
\<close>

subsection \<open>Data\<close>

text \<open>\<^verbatim>\<open>image.Point\<close> of the Go standard library.\<close>

record Point =
  X :: int
  Y :: int

datatype error =
    InvalidLevel            \<comment> \<open>\<^verbatim>\<open>errors.New("invalid levelDownsample")\<close>\<close>
  | InvalidAddress          \<comment> \<open>\<^verbatim>\<open>errors.New("invalid address")\<close>\<close>
  | PanicIndexOutOfRange    \<comment> \<open>run-time panic: slice index out of range\<close>
  | PanicDivideByZero       \<comment> \<open>run-time panic: integer divide by zero\<close>
  | PanicMakeSlice          \<comment> \<open>run-time panic: \<^verbatim>\<open>make\<close> with a negative capacity\<close>

fun is_panic :: "error \<Rightarrow> bool" where
  "is_panic InvalidLevel = False"
| "is_panic InvalidAddress = False"
| "is_panic PanicIndexOutOfRange = True"
| "is_panic PanicDivideByZero = True"
| "is_panic PanicMakeSlice = True"

text \<open>
  The slide (\<^verbatim>\<open>WSI\<close>) wraps the OpenSlide C library; the geometry code only calls the
  five methods below, so the slide is the record of what they return.
\<close>

record WSI =
  LevelCount :: int
  LevelDimensions :: "int \<Rightarrow> int \<times> int"
  LevelDownsample :: "int \<Rightarrow> real"
  BestLevelForDownsample :: "real \<Rightarrow> int"
  PropertyValue :: "string \<Rightarrow> string"

record tileInfo =
  l0Location :: Point
  lSize :: Point
  zSize :: Point
  slideLevel :: int

record Tile =
  Level :: int
  Row :: int
  Col :: int
  tileInfo :: tileInfo

record levelDownsample =
  level :: int
  downsample :: real
  Point :: Point

record downsample =
  slideLevel :: levelDownsample
  bestLevelDownsample :: real

record DeepZoomGenerator =
  wsi :: WSI
  tileSize :: int
  overlap :: int
  limitBounds :: bool
  deepZoomTileLevels :: "Point list"
  deepZoomLevels :: "Point list"
  level0Offset :: Point
  levels :: "Point list"
  downsamples :: "downsample list"

record deepZoomOverlap =
  top_edge :: int
  left :: int
  bottom :: int
  right :: int

subsection \<open>Go primitives\<close>

text \<open>Conversion \<^verbatim>\<open>int(f)\<close> of a float: truncation towards zero.\<close>

definition int_of_float :: "real \<Rightarrow> int" where
  "int_of_float f = (if 0 \<le> f then \<lfloor>f\<rfloor> else \<lceil>f\<rceil>)"

text \<open>\<^verbatim>\<open>math.Ceil\<close>, whose result is again a float.\<close>

definition Ceil :: "real \<Rightarrow> real" where
  "Ceil f = of_int \<lceil>f\<rceil>"

text \<open>Integer division \<^verbatim>\<open>a / b\<close>: truncates towards zero and panics when \<open>b = 0\<close>.\<close>

definition go_div :: "int \<Rightarrow> int \<Rightarrow> error + int" where
  "go_div a b = (if b = 0 then Inl PanicDivideByZero else Inr (sgn a * sgn b * (\<bar>a\<bar> div \<bar>b\<bar>)))"

text \<open>Slice indexing \<^verbatim>\<open>xs[i]\<close>: panics out of range.\<close>

definition index :: "'a list \<Rightarrow> int \<Rightarrow> error + 'a" where
  "index xs i = (if 0 \<le> i \<and> i < int (length xs) then Inr (xs ! nat i) else Inl PanicIndexOutOfRange)"

subsection \<open>\<^verbatim>\<open>strconv\<close>\<close>

text \<open>
  \<^verbatim>\<open>strconv.Atoi\<close> and \<^verbatim>\<open>strconv.Itoa\<close> belong to Go's standard library, not to this
  repository. They are modelled after the library's algorithm for base 10 on a 64-bit
  platform: \<^verbatim>\<open>Atoi\<close> takes a fast path for strings of 1 to 18 characters and otherwise
  calls \<^verbatim>\<open>ParseInt\<close>, which strips a sign and calls \<^verbatim>\<open>ParseUint\<close>. The loop of
  \<^verbatim>\<open>ParseUint\<close> reads one character at a time and checks it first for being a digit and
  then for overflow of the unsigned 64-bit value, so the error is the one met first: a
  syntax error returns 0, a range error the largest value.
\<close>

datatype NumError = ErrSyntax | ErrRange

definition digit_val :: "char \<Rightarrow> nat option" where
  "digit_val c = (let n = (of_char c :: nat) in if 48 \<le> n \<and> n \<le> 57 then Some (n - 48) else None)"

text \<open>
  The loop of \<^verbatim>\<open>ParseUint\<close>: \<^verbatim>\<open>cutoff = maxUint64/10 + 1\<close>, \<^verbatim>\<open>maxVal = 1<<64 - 1\<close>, and the
  sum \<^verbatim>\<open>n1 := n + uint64(d)\<close> wraps modulo \<open>2^64\<close>.
\<close>

fun ParseUint_loop :: "string \<Rightarrow> nat \<Rightarrow> nat \<times> NumError option" where
  "ParseUint_loop [] n = (n, None)"
| "ParseUint_loop (c # cs) n =
     (case digit_val c of
        None \<Rightarrow> (0, Some ErrSyntax)
      | Some d \<Rightarrow>
          if (2 ^ 64 - 1) div 10 + 1 \<le> n then (2 ^ 64 - 1, Some ErrRange)
          else if (n * 10 + d) mod 2 ^ 64 < n * 10 \<or> 2 ^ 64 - 1 < (n * 10 + d) mod 2 ^ 64
               then (2 ^ 64 - 1, Some ErrRange)
               else ParseUint_loop cs ((n * 10 + d) mod 2 ^ 64))"

definition ParseUint :: "string \<Rightarrow> nat \<times> NumError option" where
  "ParseUint s = (if s = [] then (0, Some ErrSyntax) else ParseUint_loop s 0)"

fun strip_sign :: "string \<Rightarrow> bool \<times> string" where
  "strip_sign [] = (False, [])"
| "strip_sign (c # cs) =
     (if c = CHR ''+'' then (False, cs) else if c = CHR ''-'' then (True, cs) else (False, c # cs))"

text \<open>
  \<^verbatim>\<open>ParseInt\<close>: a syntax error of \<^verbatim>\<open>ParseUint\<close> is returned with the value 0; after a
  range error the unsigned value is the largest one, which the range checks of \<^verbatim>\<open>ParseInt\<close>
  turn into the nearest signed bound.
\<close>

definition ParseInt :: "string \<Rightarrow> int \<times> NumError option" where
  "ParseInt s =
     (if s = [] then (0, Some ErrSyntax)
      else
        (case strip_sign s of (neg, ds) \<Rightarrow>
           (case ParseUint ds of (un, err) \<Rightarrow>
              if err = Some ErrSyntax then (0, Some ErrSyntax)
              else if \<not> neg \<and> 2 ^ 63 \<le> un then (2 ^ 63 - 1, Some ErrRange)
              else if neg \<and> 2 ^ 63 < un then (- (2 ^ 63), Some ErrRange)
              else (if neg then - int un else int un, None))))"

text \<open>
  The fast path of \<^verbatim>\<open>Atoi\<close>: \<^verbatim>\<open>ch -= '0'\<close> wraps in a byte, and a result above 9 is a
  syntax error.
\<close>

fun Atoi_fast_loop :: "string \<Rightarrow> int \<Rightarrow> int option" where
  "Atoi_fast_loop [] n = Some n"
| "Atoi_fast_loop (ch # cs) n =
     (if 9 < ((of_char ch :: nat) + 256 - 48) mod 256 then None
      else Atoi_fast_loop cs (n * 10 + int (((of_char ch :: nat) + 256 - 48) mod 256)))"

definition Atoi :: "string \<Rightarrow> int \<times> NumError option" where
  "Atoi s =
     (case s of
        [] \<Rightarrow> ParseInt s
      | c # cs \<Rightarrow>
          if length s < 19 then
            (let ds = (if c = CHR ''-'' \<or> c = CHR ''+'' then cs else s) in
             if ds = [] then (0, Some ErrSyntax)
             else (case Atoi_fast_loop ds 0 of
                     None \<Rightarrow> (0, Some ErrSyntax)
                   | Some n \<Rightarrow> (if c = CHR ''-'' then - n else n, None)))
          else ParseInt s)"

fun digits :: "nat \<Rightarrow> string" where
  "digits n = (if n < 10 then [char_of (48 + n)] else digits (n div 10) @ [char_of (48 + n mod 10)])"

definition Itoa :: "int \<Rightarrow> string" where
  "Itoa i = (if i < 0 then CHR ''-'' # digits (nat (- i)) else digits (nat i))"


subsection \<open>\<^verbatim>\<open>helpers.go\<close>\<close>

definition mustStrToInt :: "string \<Rightarrow> int" where
  "mustStrToInt s = (case Atoi s of (n, _) \<Rightarrow> n)"

definition boolToInt :: "bool \<Rightarrow> int" where
  "boolToInt b = (if b then 1 else 0)"

text \<open>
  \<^verbatim>\<open>reverse\<close> swaps in place: \<^verbatim>\<open>for i := len(a)/2 - 1; i >= 0; i--\<close> exchanges
  \<^verbatim>\<open>a[i]\<close> and \<^verbatim>\<open>a[len(a)-1-i]\<close>. The loop counter of the model is \<open>i + 1\<close>.
\<close>

fun reverse_loop :: "nat \<Rightarrow> 'a list \<Rightarrow> 'a list" where
  "reverse_loop 0 a = a"
| "reverse_loop (Suc i) a =
     (let opp = length a - 1 - i in reverse_loop i (a[i := a ! opp, opp := a ! i]))"

definition reverse :: "'a list \<Rightarrow> 'a list" where
  "reverse a = reverse_loop (length a div 2) a"

subsection \<open>\<^verbatim>\<open>props.go\<close> and property lookup\<close>

definition PropertyBoundsHeight :: string where
  "PropertyBoundsHeight = ''openslide.bounds-height''"

definition PropertyBoundsWidth :: string where
  "PropertyBoundsWidth = ''openslide.bounds-width''"

definition PropertyBoundsX :: string where
  "PropertyBoundsX = ''openslide.bounds-x''"

definition PropertyBoundsY :: string where
  "PropertyBoundsY = ''openslide.bounds-y''"

definition PropertyValueWithDefault :: "WSI \<Rightarrow> string \<Rightarrow> string \<Rightarrow> string" where
  "PropertyValueWithDefault slide name defaultValue =
     (let v = PropertyValue slide name in if v \<noteq> [] then v else defaultValue)"

subsection \<open>\<^verbatim>\<open>deepzoom.go\<close>: construction\<close>

text \<open>
  \<^verbatim>\<open>getDeepZoomLevels\<close>: the loop appends the halved size until both components are at
  most 1, then the slice is reversed.
\<close>

definition halve :: "Point \<Rightarrow> Point" where
  "halve z =
     \<lparr>X = int_of_float (max 1 (Ceil (real_of_int (X z) / 2))),
      Y = int_of_float (max 1 (Ceil (real_of_int (Y z) / 2)))\<rparr>"

function getDeepZoomLevels_loop :: "Point \<Rightarrow> Point list \<Rightarrow> Point list" where
  "getDeepZoomLevels_loop z zDimensions =
     (if X z \<le> 1 \<and> Y z \<le> 1 then zDimensions
      else getDeepZoomLevels_loop (halve z) (zDimensions @ [halve z]))"
  by pat_completeness auto
termination
proof (relation "measure (\<lambda>(z, zDimensions). nat (X z - 1) + nat (Y z - 1))")
  show "wf (measure (\<lambda>(z, zDimensions). nat (X z - 1) + nat (Y z - 1)))"
    by simp
next
  fix z :: Point and zDimensions :: "Point list"
  assume a: "\<not> (X z \<le> 1 \<and> Y z \<le> 1)"
  have c: "\<lceil>real_of_int n / 2\<rceil> = - ((- n) div 2)" for n :: int
    using ceiling_divide_eq_div [of n 2, where ?'a = real] by simp
  have "nat (X (halve z) - 1) + nat (Y (halve z) - 1) < nat (X z - 1) + nat (Y z - 1)"
    using a by (simp add: halve_def int_of_float_def Ceil_def max_def c) linarith
  then show "((halve z, zDimensions @ [halve z]), (z, zDimensions))
             \<in> measure (\<lambda>(z, zDimensions). nat (X z - 1) + nat (Y z - 1))"
    by simp
qed

definition getDeepZoomLevels :: "Point \<Rightarrow> Point list" where
  "getDeepZoomLevels z = reverse (getDeepZoomLevels_loop z [z])"

definition tileCount :: "int \<Rightarrow> int \<Rightarrow> int" where
  "tileCount ts zLim = int_of_float (Ceil (real_of_int zLim / real_of_int ts))"

definition getDeepZoomTileLevels :: "int \<Rightarrow> Point list \<Rightarrow> Point list" where
  "getDeepZoomTileLevels ts dimensions =
     map (\<lambda>d. \<lparr>X = tileCount ts (X d), Y = tileCount ts (Y d)\<rparr>) dimensions"

definition generateDownsamples :: "WSI \<Rightarrow> int \<Rightarrow> downsample list" where
  "generateDownsamples slide dzLevelsCount =
     map (\<lambda>dzLevel.
            let l0ZDownsample = (2::real) ^ nat (dzLevelsCount - dzLevel - 1);
                bestLevel = BestLevelForDownsample slide l0ZDownsample;
                dims = LevelDimensions slide bestLevel
            in \<lparr>downsample.slideLevel =
                   \<lparr>level = bestLevel,
                    downsample = LevelDownsample slide bestLevel,
                    Point = \<lparr>X = fst dims, Y = snd dims\<rparr>\<rparr>,
                bestLevelDownsample = l0ZDownsample / LevelDownsample slide bestLevel\<rparr>)
         [0..dzLevelsCount - 1]"

definition getLevel0Offset :: "WSI \<Rightarrow> bool \<Rightarrow> Point" where
  "getLevel0Offset slide lb =
     (if lb then \<lparr>X = mustStrToInt (PropertyValue slide PropertyBoundsX),
                  Y = mustStrToInt (PropertyValue slide PropertyBoundsY)\<rparr>
      else \<lparr>X = 0, Y = 0\<rparr>)"

definition getLevelDimensions :: "WSI \<Rightarrow> bool \<Rightarrow> error + Point list" where
  "getLevelDimensions slide lb =
     (let lCount = LevelCount slide in
      if lCount < 0 then Inl PanicMakeSlice
      else
        let dimensions = map (\<lambda>i. \<lparr>X = fst (LevelDimensions slide i), Y = snd (LevelDimensions slide i)\<rparr>)
                             [0..lCount - 1]
        in if \<not> lb then Inr dimensions
           else (case index dimensions 0 of
                   Inl e \<Rightarrow> Inl e
                 | Inr d0 \<Rightarrow>
                     let l0width = X d0; l0height = Y d0 in
                     (case go_div (mustStrToInt (PropertyValueWithDefault slide PropertyBoundsWidth (Itoa l0width))) l0width of
                        Inl e \<Rightarrow> Inl e
                      | Inr xRatio \<Rightarrow>
                          (case go_div (mustStrToInt (PropertyValueWithDefault slide PropertyBoundsHeight (Itoa l0height))) l0height of
                             Inl e \<Rightarrow> Inl e
                           | Inr yRatio \<Rightarrow>
                               Inr (map (\<lambda>d. \<lparr>X = X d * xRatio, Y = Y d * yRatio\<rparr>) dimensions)))))"

text \<open>
  \<^verbatim>\<open>NewDeepZoomGenerator\<close>. The composite literal does not set \<^verbatim>\<open>limitBounds\<close>, so the
  field keeps its zero value.
\<close>

definition NewDeepZoomGenerator :: "WSI \<Rightarrow> int \<Rightarrow> int \<Rightarrow> bool \<Rightarrow> error + DeepZoomGenerator" where
  "NewDeepZoomGenerator slide ts ov lb =
     (case getLevelDimensions slide lb of
        Inl e \<Rightarrow> Inl e
      | Inr ls \<Rightarrow>
          (case index ls 0 of
             Inl e \<Rightarrow> Inl e
           | Inr d0 \<Rightarrow>
               let zls = getDeepZoomLevels d0;
                   tls = getDeepZoomTileLevels ts zls;
                   dss = generateDownsamples slide (int (length tls))
               in Inr \<lparr>wsi = slide,
                       tileSize = ts,
                       overlap = ov,
                       limitBounds = False,
                       deepZoomTileLevels = tls,
                       deepZoomLevels = zls,
                       level0Offset = getLevel0Offset slide lb,
                       levels = ls,
                       downsamples = dss\<rparr>))"

subsection \<open>\<^verbatim>\<open>deepzoom.go\<close>: queries\<close>

definition dz_LevelsCount :: "DeepZoomGenerator \<Rightarrow> int" where
  "dz_LevelsCount dz = int (length (downsamples dz))"

definition dz_Level :: "DeepZoomGenerator \<Rightarrow> int \<Rightarrow> error + Point" where
  "dz_Level dz lv = index (deepZoomTileLevels dz) lv"

definition dz_TileCount :: "DeepZoomGenerator \<Rightarrow> int" where
  "dz_TileCount dz = fold (\<lambda>dimension sum. sum + X dimension * Y dimension) (deepZoomTileLevels dz) 0"

definition getDeepZoomOverlap :: "Point \<Rightarrow> int \<Rightarrow> int \<Rightarrow> int \<Rightarrow> deepZoomOverlap" where
  "getDeepZoomOverlap levelDimension ov col row =
     \<lparr>top_edge = ov * boolToInt (row \<noteq> 0),
      left = ov * boolToInt (col \<noteq> 0),
      bottom = ov * boolToInt (row \<noteq> Y levelDimension - 1),
      right = ov * boolToInt (col \<noteq> X levelDimension - 1)\<rparr>"

text \<open>
  \<^verbatim>\<open>tileInfo\<close>. The level check is \<^verbatim>\<open>dzLevel < 0 || dzLevel > len(dz.downsamples)\<close>; the
  three slices are then indexed with \<^verbatim>\<open>dzLevel\<close>, in the order of the source.
\<close>

definition dz_tileInfo :: "DeepZoomGenerator \<Rightarrow> int \<Rightarrow> int \<Rightarrow> int \<Rightarrow> error + tileInfo" where
  "dz_tileInfo dz dzLevel col row =
     (if dzLevel < 0 \<or> dzLevel > int (length (downsamples dz)) then Inl InvalidLevel
      else if col < 0 \<or> row < 0 then Inl InvalidAddress
      else
        (case index (downsamples dz) dzLevel of
           Inl e \<Rightarrow> Inl e
         | Inr lv \<Rightarrow>
        (case dz_Level dz dzLevel of
           Inl e \<Rightarrow> Inl e
         | Inr grid \<Rightarrow>
        (case index (deepZoomLevels dz) dzLevel of
           Inl e \<Rightarrow> Inl e
         | Inr zdim \<Rightarrow>
             let dzOverlap = getDeepZoomOverlap grid (overlap dz) col row;
                 zs = \<lparr>X = int_of_float (min (real_of_int (tileSize dz))
                                            (real_of_int (X zdim - tileSize dz * col)))
                          + left dzOverlap + right dzOverlap,
                       Y = int_of_float (min (real_of_int (tileSize dz))
                                            (real_of_int (Y zdim - tileSize dz * row)))
                          + top_edge dzOverlap + bottom dzOverlap\<rparr>;
                 zLocation = \<lparr>X = tileSize dz * col, Y = tileSize dz * row\<rparr>;
                 lLocation0 = bestLevelDownsample lv
                              * (real_of_int (X zLocation) - real_of_int (left dzOverlap));
                 lLocation1 = bestLevelDownsample lv
                              * (real_of_int (Y zLocation) - real_of_int (top_edge dzOverlap));
                 l0 = \<lparr>X = int_of_float (downsample (downsample.slideLevel lv) * lLocation0
                                            + real_of_int (X (level0Offset dz))),
                       Y = int_of_float (downsample (downsample.slideLevel lv) * lLocation1
                                            + real_of_int (Y (level0Offset dz)))\<rparr>;
                 ls = \<lparr>X = int_of_float (min (Ceil (bestLevelDownsample lv * real_of_int (X zs)))
                                            (real_of_int (X (Point (downsample.slideLevel lv)))
                                             - Ceil lLocation0)),
                       Y = int_of_float (min (Ceil (bestLevelDownsample lv * real_of_int (Y zs)))
                                            (real_of_int (Y (Point (downsample.slideLevel lv)))
                                             - Ceil lLocation1))\<rparr>
             in Inr \<lparr>l0Location = l0,
                     lSize = ls,
                     zSize = zs,
                     tileInfo.slideLevel = level (downsample.slideLevel lv)\<rparr>))))"

definition dz_Tile :: "DeepZoomGenerator \<Rightarrow> int \<Rightarrow> int \<Rightarrow> int \<Rightarrow> error + Tile" where
  "dz_Tile dz lv col row =
     (case dz_tileInfo dz lv col row of
        Inl e \<Rightarrow> Inl e
      | Inr ti \<Rightarrow> Inr \<lparr>Level = lv, Row = row, Col = col, tileInfo = ti\<rparr>)"

subsection \<open>\<^verbatim>\<open>deepzoom.go\<close>: enumeration\<close>

text \<open>
  \<^verbatim>\<open>Iter\<close> sends the tiles on a channel from a goroutine. The model is the sequence of
  tiles sent when the context is never cancelled: the channel is the list built so far. An
  error returned by \<^verbatim>\<open>Tile\<close> is discarded and the zero \<^verbatim>\<open>Tile\<close> is sent; a panic ends the
  program.
\<close>

fun for_each :: "'a list \<Rightarrow> ('a \<Rightarrow> 's \<Rightarrow> error + 's) \<Rightarrow> 's \<Rightarrow> error + 's" where
  "for_each [] body s = Inr s"
| "for_each (x # xs) body s =
     (case body x s of Inl e \<Rightarrow> Inl e | Inr s' \<Rightarrow> for_each xs body s')"

definition zero_Tile :: Tile where
  "zero_Tile =
     \<lparr>Level = 0, Row = 0, Col = 0,
      tileInfo = \<lparr>l0Location = \<lparr>X = 0, Y = 0\<rparr>, lSize = \<lparr>X = 0, Y = 0\<rparr>,
                  zSize = \<lparr>X = 0, Y = 0\<rparr>, tileInfo.slideLevel = 0\<rparr>\<rparr>"

definition dz_Iter :: "DeepZoomGenerator \<Rightarrow> error + Tile list" where
  "dz_Iter dz =
     for_each [0..dz_LevelsCount dz - 1]
       (\<lambda>lv ch.
          case dz_Level dz lv of
            Inl e \<Rightarrow> Inl e
          | Inr grid \<Rightarrow>
              for_each [0..Y grid - 1]
                (\<lambda>row ch.
                   for_each [0..X grid - 1]
                     (\<lambda>col ch.
                        case dz_Tile dz lv col row of
                          Inr tile \<Rightarrow> Inr (ch @ [tile])
                        | Inl e \<Rightarrow> if is_panic e then Inl e else Inr (ch @ [zero_Tile]))
                     ch)
                ch)
       []"

subsection \<open>Derived quantities and example slides\<close>

text \<open>
  The unpadded size of a tile: its output size \<^verbatim>\<open>zSize\<close> minus the overlap that
  \<^verbatim>\<open>tileInfo\<close> added on each side (0 where the lookup fails).
\<close>

definition unpadded_width :: "DeepZoomGenerator \<Rightarrow> int \<Rightarrow> int \<Rightarrow> int \<Rightarrow> int" where
  "unpadded_width dz lv col row =
     (case dz_tileInfo dz lv col row of
        Inl e \<Rightarrow> 0
      | Inr ti \<Rightarrow>
          (case dz_Level dz lv of
             Inl e \<Rightarrow> 0
           | Inr grid \<Rightarrow>
               X (zSize ti) - left (getDeepZoomOverlap grid (overlap dz) col row)
                            - right (getDeepZoomOverlap grid (overlap dz) col row)))"

definition unpadded_height :: "DeepZoomGenerator \<Rightarrow> int \<Rightarrow> int \<Rightarrow> int \<Rightarrow> int" where
  "unpadded_height dz lv col row =
     (case dz_tileInfo dz lv col row of
        Inl e \<Rightarrow> 0
      | Inr ti \<Rightarrow>
          (case dz_Level dz lv of
             Inl e \<Rightarrow> 0
           | Inr grid \<Rightarrow>
               Y (zSize ti) - top_edge (getDeepZoomOverlap grid (overlap dz) col row)
                            - bottom (getDeepZoomOverlap grid (overlap dz) col row)))"

text \<open>The order of the enumeration: by level, then by row, then by column.\<close>

definition tile_before :: "Tile \<Rightarrow> Tile \<Rightarrow> bool" where
  "tile_before s t =
     (Level s < Level t \<or>
      (Level s = Level t \<and> (Row s < Row t \<or> (Row s = Row t \<and> Col s < Col t))))"

text \<open>
  What \<^verbatim>\<open>Iter\<close> sends for one address when the lookup does not panic, and the nested
  loops of \<^verbatim>\<open>Iter\<close> written as one list.
\<close>

definition sent_tile :: "DeepZoomGenerator \<Rightarrow> int \<Rightarrow> int \<Rightarrow> int \<Rightarrow> Tile" where
  "sent_tile dz lv col row = (case dz_Tile dz lv col row of Inr tile \<Rightarrow> tile | Inl e \<Rightarrow> zero_Tile)"

definition level_tiles :: "DeepZoomGenerator \<Rightarrow> int \<Rightarrow> Point \<Rightarrow> Tile list" where
  "level_tiles dz lv grid =
     concat (map (\<lambda>row. map (\<lambda>col. sent_tile dz lv col row) [0..X grid - 1]) [0..Y grid - 1])"

definition all_tiles :: "DeepZoomGenerator \<Rightarrow> Tile list" where
  "all_tiles dz =
     concat (map (\<lambda>lv. level_tiles dz lv (deepZoomTileLevels dz ! nat lv))
                 [0..dz_LevelsCount dz - 1])"

text \<open>
  A slide with two native levels, \<open>4 \<times> 4\<close> at downsample 1 and \<open>2 \<times> 2\<close> at downsample 2,
  whose best level for a downsample is the coarsest level not exceeding it.
\<close>

definition small_dims :: "int \<Rightarrow> int \<times> int" where
  "small_dims i = (if i = 0 then (4, 4) else (2, 2))"

definition small_downsample :: "int \<Rightarrow> real" where
  "small_downsample i = (if i = 0 then 1 else 2)"

definition small_best_level :: "real \<Rightarrow> int" where
  "small_best_level d = (if 2 \<le> d then 1 else 0)"

definition no_properties :: "string \<Rightarrow> string" where
  "no_properties name = []"

definition small_slide :: WSI where
  "small_slide =
     \<lparr>LevelCount = 2, LevelDimensions = small_dims, LevelDownsample = small_downsample,
      BestLevelForDownsample = small_best_level, PropertyValue = no_properties\<rparr>"

text \<open>The same slide declaring the bounding region \<open>2 \<times> 2\<close> at offset \<open>(1, 1)\<close>.\<close>

definition bounds_properties :: "string \<Rightarrow> string" where
  "bounds_properties name =
     (if name = PropertyBoundsWidth then ''2''
      else if name = PropertyBoundsHeight then ''2''
      else if name = PropertyBoundsX then ''1''
      else if name = PropertyBoundsY then ''1''
      else [])"

definition bounded_slide :: WSI where
  "bounded_slide = small_slide\<lparr>PropertyValue := bounds_properties\<rparr>"

text \<open>A slide with one native level of \<open>1024 \<times> 768\<close> pixels.\<close>

definition wide_dims :: "int \<Rightarrow> int \<times> int" where
  "wide_dims i = (1024, 768)"

definition wide_downsample :: "int \<Rightarrow> real" where
  "wide_downsample i = 1"

definition wide_best_level :: "real \<Rightarrow> int" where
  "wide_best_level d = 0"

definition wide_slide :: WSI where
  "wide_slide =
     \<lparr>LevelCount = 1, LevelDimensions = wide_dims, LevelDownsample = wide_downsample,
      BestLevelForDownsample = wide_best_level, PropertyValue = no_properties\<rparr>"

text \<open>The generator that \<^verbatim>\<open>NewDeepZoomGenerator\<close> builds for the first slide with tile size 1.\<close>

definition small_generator :: DeepZoomGenerator where
  "small_generator =
     \<lparr>wsi = small_slide, tileSize = 1, overlap = 0, limitBounds = False,
      deepZoomTileLevels = [\<lparr>X = 1, Y = 1\<rparr>, \<lparr>X = 2, Y = 2\<rparr>, \<lparr>X = 4, Y = 4\<rparr>],
      deepZoomLevels = [\<lparr>X = 1, Y = 1\<rparr>, \<lparr>X = 2, Y = 2\<rparr>, \<lparr>X = 4, Y = 4\<rparr>],
      level0Offset = \<lparr>X = 0, Y = 0\<rparr>,
      levels = [\<lparr>X = 4, Y = 4\<rparr>, \<lparr>X = 2, Y = 2\<rparr>],
      downsamples =
        [\<lparr>downsample.slideLevel = \<lparr>level = 1, downsample = 2, Point = \<lparr>X = 2, Y = 2\<rparr>\<rparr>,
          bestLevelDownsample = 2\<rparr>,
         \<lparr>downsample.slideLevel = \<lparr>level = 1, downsample = 2, Point = \<lparr>X = 2, Y = 2\<rparr>\<rparr>,
          bestLevelDownsample = 1\<rparr>,
         \<lparr>downsample.slideLevel = \<lparr>level = 0, downsample = 1, Point = \<lparr>X = 4, Y = 4\<rparr>\<rparr>,
          bestLevelDownsample = 1\<rparr>]\<rparr>"





declare getDeepZoomLevels_loop.simps [simp del]

declare digits.simps [simp del]

section \<open>Properties\<close>

subsection \<open>Go primitives\<close>

lemma int_of_float_of_int: "int_of_float (real_of_int n) = n"
  by (simp add: int_of_float_def)

lemma int_of_float_Ceil: "int_of_float (Ceil f) = \<lceil>f\<rceil>"
  by (simp add: Ceil_def int_of_float_of_int)

lemma int_of_float_min: "int_of_float (min (real_of_int a) (real_of_int b)) = min a b"
  by (simp add: min_def int_of_float_of_int)

lemma length_reverse_loop: "length (reverse_loop k a) = length a"
  by (induction k arbitrary: a) (simp_all add: Let_def)

lemma nth_reverse_loop:
  "k \<le> length a div 2 \<Longrightarrow> j < length a \<Longrightarrow>
   reverse_loop k a ! j = (if j < k \<or> length a - k \<le> j then a ! (length a - 1 - j) else a ! j)"
proof (induction k arbitrary: a j)
  case 0
  then show ?case by simp
next
  case (Suc k)
  let ?opp = "length a - 1 - k"
  let ?a = "a[k := a ! ?opp, ?opp := a ! k]"
  have k: "k \<le> length ?a div 2" and j: "j < length ?a" using Suc.prems by simp_all
  have big: "2 * k + 2 \<le> length a" using Suc.prems(1) by simp
  show ?case
    using Suc.IH [OF k j] big Suc.prems(2)
    by (auto simp: Let_def nth_list_update)
qed

text \<open>The in-place swap loop reverses the slice.\<close>

lemma reverse_eq_rev: "reverse a = rev a"
proof (rule nth_equalityI)
  show "length (reverse a) = length (rev a)"
    by (simp add: reverse_def length_reverse_loop)
next
  fix i assume "i < length (reverse a)"
  then have i: "i < length a" by (simp add: reverse_def length_reverse_loop)
  have "reverse a ! i = a ! (length a - 1 - i)"
    unfolding reverse_def using nth_reverse_loop [of "length a div 2" a i] i
    by (auto intro: arg_cong [of _ _ "nth a"])
  then show "reverse a ! i = rev a ! i" using i by (simp add: rev_nth)
qed

subsection \<open>Tile counts\<close>

lemma tileCount_ceiling: "tileCount ts zLim = \<lceil>real_of_int zLim / real_of_int ts\<rceil>"
  by (simp add: tileCount_def int_of_float_Ceil)

lemma tileCount_upper: "0 < ts \<Longrightarrow> zLim \<le> tileCount ts zLim * ts"
proof -
  assume ts: "0 < ts"
  have "real_of_int zLim / real_of_int ts \<le> real_of_int (tileCount ts zLim)"
    by (simp add: tileCount_ceiling)
  then have "real_of_int zLim \<le> real_of_int (tileCount ts zLim) * real_of_int ts"
    using ts by (simp add: pos_divide_le_eq)
  then have "real_of_int zLim \<le> real_of_int (tileCount ts zLim * ts)" by simp
  then show ?thesis by (simp only: of_int_le_iff)
qed

lemma tileCount_lower: "0 < ts \<Longrightarrow> (tileCount ts zLim - 1) * ts < zLim"
proof -
  assume ts: "0 < ts"
  have "real_of_int (tileCount ts zLim) - 1 < real_of_int zLim / real_of_int ts"
    unfolding tileCount_ceiling by linarith
  then have "(real_of_int (tileCount ts zLim) - 1) * real_of_int ts < real_of_int zLim"
    using ts by (simp add: pos_less_divide_eq)
  then have "real_of_int ((tileCount ts zLim - 1) * ts) < real_of_int zLim" by simp
  then show ?thesis by (simp only: of_int_less_iff)
qed

lemma tileCount_pos: "0 < ts \<Longrightarrow> 1 \<le> zLim \<Longrightarrow> 1 \<le> tileCount ts zLim"
proof -
  assume ts: "0 < ts" and z: "1 \<le> zLim"
  have "0 < real_of_int zLim / real_of_int ts" using ts z by simp
  then show ?thesis unfolding tileCount_ceiling by linarith
qed

lemma tileCount_nonneg: "0 < ts \<Longrightarrow> 0 \<le> zLim \<Longrightarrow> 0 \<le> tileCount ts zLim"
proof -
  assume ts: "0 < ts" and z: "0 \<le> zLim"
  have "0 \<le> real_of_int zLim / real_of_int ts" using ts z by simp
  then show ?thesis unfolding tileCount_ceiling by linarith
qed

subsection \<open>The example generator\<close>

lemma upto_0_1: "[0..1] = [0, 1]"
  by (simp add: upto.simps)

lemma upto_0_2: "[0..2] = [0, 1, 2]"
  by (simp add: upto.simps)

lemma small_generator_built: "NewDeepZoomGenerator small_slide 1 0 False = Inr small_generator"
  by (simp add: NewDeepZoomGenerator_def getLevelDimensions_def small_slide_def small_dims_def
      index_def getDeepZoomLevels_def reverse_eq_rev getDeepZoomLevels_loop.simps halve_def
      Ceil_def int_of_float_def getDeepZoomTileLevels_def tileCount_def generateDownsamples_def
      Let_def small_best_level_def small_downsample_def getLevel0Offset_def small_generator_def
      upto_0_1 upto_0_2)

subsection \<open>Level Dimension Resolver\<close>

text \<open>
  Claim C1. With bounds restriction enabled, the effective dimensions of every native level
  are the native dimensions scaled by the ratios bounds width / level-0 width and bounds
  height / level-0 height, and the effective base dimensions are at least \<open>1 \<times> 1\<close> whenever
  the native level-0 dimensions and the declared bounds are at least \<open>1 \<times> 1\<close>.

  \<^verbatim>\<open>getLevelDimensions\<close> computes each ratio with Go's integer division before it
  multiplies, so a bounding region smaller than level 0 has ratio 0: for the slide of
  \<open>4 \<times> 4\<close> pixels with declared bounds \<open>2 \<times> 2\<close> every effective dimension is 0, and the
  invariant fails.
\<close>

theorem getLevelDimensions_bounds_collapse:
  "LevelDimensions bounded_slide 0 = (4, 4)
   \<and> PropertyValue bounded_slide PropertyBoundsWidth = ''2''
   \<and> PropertyValue bounded_slide PropertyBoundsHeight = ''2''
   \<and> getLevelDimensions bounded_slide True = Inr [\<lparr>X = 0, Y = 0\<rparr>, \<lparr>X = 0, Y = 0\<rparr>]"
  by (simp add: getLevelDimensions_def bounded_slide_def small_slide_def small_dims_def index_def
      bounds_properties_def PropertyValueWithDefault_def mustStrToInt_def Atoi_def digit_val_def
      go_div_def PropertyBoundsWidth_def PropertyBoundsHeight_def Let_def upto_0_1)

subsection \<open>Validation of the tile lookup\<close>

text \<open>
  Claim C2. \<^verbatim>\<open>tileInfo\<close> returns the invalid-level error for every level outside
  \<open>[0, levelCount)\<close>, in particular for \<open>dzLevel = levelCount\<close>, the invalid-address error
  for a negative column or row, and no error otherwise.

  The check of the code is \<^verbatim>\<open>dzLevel > len(dz.downsamples)\<close>: the level \<open>levelCount\<close>
  passes it, and indexing \<^verbatim>\<open>dz.downsamples\<close> with it panics. The example generator
  has 3 levels; level 3 panics, while level 4 is rejected as the claim says.
\<close>

theorem tileInfo_level_count_panics:
  "dz_LevelsCount small_generator = 3
   \<and> dz_tileInfo small_generator 3 0 0 = Inl PanicIndexOutOfRange
   \<and> dz_tileInfo small_generator 4 0 0 = Inl InvalidLevel
   \<and> dz_tileInfo small_generator 2 (- 1) 0 = Inl InvalidAddress"
  by (simp add: dz_LevelsCount_def dz_tileInfo_def small_generator_def index_def)

subsection \<open>Tile Grid Builder\<close>

text \<open>
  Claim C4. For a virtual level of width and height at least 1 and a tile size above 0,
  the grid counts are the ceilings of width / tile size and height / tile size; they
  satisfy \<open>cols * tileSize \<ge> width\<close> and \<open>(cols - 1) * tileSize < width\<close>, likewise for
  rows, and both are at least 1.
\<close>

theorem tile_grid_counts:
  assumes "0 < ts" and "i < length dimensions"
    and "1 \<le> X (dimensions ! i)" and "1 \<le> Y (dimensions ! i)"
  shows "X (dimensions ! i) \<le> X (getDeepZoomTileLevels ts dimensions ! i) * ts
       \<and> (X (getDeepZoomTileLevels ts dimensions ! i) - 1) * ts < X (dimensions ! i)
       \<and> Y (dimensions ! i) \<le> Y (getDeepZoomTileLevels ts dimensions ! i) * ts
       \<and> (Y (getDeepZoomTileLevels ts dimensions ! i) - 1) * ts < Y (dimensions ! i)
       \<and> 1 \<le> X (getDeepZoomTileLevels ts dimensions ! i)
       \<and> 1 \<le> Y (getDeepZoomTileLevels ts dimensions ! i)
       \<and> X (getDeepZoomTileLevels ts dimensions ! i)
           = \<lceil>real_of_int (X (dimensions ! i)) / real_of_int ts\<rceil>
       \<and> Y (getDeepZoomTileLevels ts dimensions ! i)
           = \<lceil>real_of_int (Y (dimensions ! i)) / real_of_int ts\<rceil>"
  using assms
  by (simp add: getDeepZoomTileLevels_def tileCount_upper tileCount_lower tileCount_pos
      tileCount_ceiling [symmetric])

theorem tile_grid_counts_witness:
  "(0::int) < 512 \<and> (0::nat) < length [\<lparr>X = 1000, Y = 700\<rparr>]
   \<and> 1 \<le> X ([\<lparr>X = 1000, Y = 700\<rparr>] ! 0) \<and> 1 \<le> Y ([\<lparr>X = 1000, Y = 700\<rparr>] ! 0)
   \<and> getDeepZoomTileLevels 512 [\<lparr>X = 1000, Y = 700\<rparr>] = [\<lparr>X = 2, Y = 2\<rparr>]
   \<and> X ([\<lparr>X = 1000, Y = 700\<rparr>] ! 0)
       \<le> X (getDeepZoomTileLevels 512 [\<lparr>X = 1000, Y = 700\<rparr>] ! 0) * 512
   \<and> (X (getDeepZoomTileLevels 512 [\<lparr>X = 1000, Y = 700\<rparr>] ! 0) - 1) * 512
       < X ([\<lparr>X = 1000, Y = 700\<rparr>] ! 0)"
  using tile_grid_counts [of 512 0 "[\<lparr>X = 1000, Y = 700\<rparr>]"]
  by (simp add: getDeepZoomTileLevels_def tileCount_def Ceil_def int_of_float_def)

subsection \<open>Pyramid Level Builder\<close>

lemma loop_small: "X z \<le> 1 \<and> Y z \<le> 1 \<Longrightarrow> getDeepZoomLevels_loop z acc = acc"
  by (rule trans [OF getDeepZoomLevels_loop.simps]) (simp only: if_P if_True)

lemma loop_step:
  "\<not> (X z \<le> 1 \<and> Y z \<le> 1) \<Longrightarrow>
   getDeepZoomLevels_loop z acc = getDeepZoomLevels_loop (halve z) (acc @ [halve z])"
  by (rule trans [OF getDeepZoomLevels_loop.simps]) (simp only: if_not_P if_False)

lemma getDeepZoomLevels_loop_acc:
  "\<forall>acc. getDeepZoomLevels_loop z acc = acc @ getDeepZoomLevels_loop z []"
proof (rule getDeepZoomLevels_loop.induct
    [of "\<lambda>z _. \<forall>acc. getDeepZoomLevels_loop z acc = acc @ getDeepZoomLevels_loop z []" z "[]"])
  fix z :: Point and zDimensions :: "Point list"
  assume IH: "\<not> (X z \<le> 1 \<and> Y z \<le> 1) \<Longrightarrow>
    \<forall>acc. getDeepZoomLevels_loop (halve z) acc = acc @ getDeepZoomLevels_loop (halve z) []"
  show "\<forall>acc. getDeepZoomLevels_loop z acc = acc @ getDeepZoomLevels_loop z []"
  proof (cases "X z \<le> 1 \<and> Y z \<le> 1")
    case True
    then show ?thesis by (simp only: loop_small append_Nil2 simp_thms)
  next
    case False
    note ih = IH [OF False, rule_format]
    show ?thesis
    proof
      fix acc
      have "getDeepZoomLevels_loop z acc = getDeepZoomLevels_loop (halve z) (acc @ [halve z])"
        by (rule loop_step [OF False])
      also have "\<dots> = (acc @ [halve z]) @ getDeepZoomLevels_loop (halve z) []"
        by (rule ih)
      also have "\<dots> = acc @ ([] @ [halve z]) @ getDeepZoomLevels_loop (halve z) []"
        by simp
      also have "([] @ [halve z]) @ getDeepZoomLevels_loop (halve z) []
                 = getDeepZoomLevels_loop (halve z) ([] @ [halve z])"
        by (rule ih [symmetric])
      also have "getDeepZoomLevels_loop (halve z) ([] @ [halve z]) = getDeepZoomLevels_loop z []"
        by (rule loop_step [OF False, symmetric])
      finally show "getDeepZoomLevels_loop z acc = acc @ getDeepZoomLevels_loop z []" .
    qed
  qed
qed

lemma chain_small: "X z \<le> 1 \<and> Y z \<le> 1 \<Longrightarrow> getDeepZoomLevels_loop z [] = []"
  by (rule loop_small)

lemma chain_step:
  assumes "\<not> (X z \<le> 1 \<and> Y z \<le> 1)"
  shows "getDeepZoomLevels_loop z [] = halve z # getDeepZoomLevels_loop (halve z) []"
proof -
  have "getDeepZoomLevels_loop z [] = getDeepZoomLevels_loop (halve z) ([] @ [halve z])"
    by (rule loop_step [OF assms])
  also have "\<dots> = ([] @ [halve z]) @ getDeepZoomLevels_loop (halve z) []"
    by (rule getDeepZoomLevels_loop_acc [rule_format])
  finally show ?thesis by simp
qed

lemma getDeepZoomLevels_chain:
  "getDeepZoomLevels z = rev (z # getDeepZoomLevels_loop z [])"
proof -
  have "getDeepZoomLevels_loop z [z] = [z] @ getDeepZoomLevels_loop z []"
    by (rule getDeepZoomLevels_loop_acc [rule_format])
  then show ?thesis by (simp add: getDeepZoomLevels_def reverse_eq_rev)
qed

lemma chain_props:
  "successively (\<lambda>a b. b = halve a) (z # getDeepZoomLevels_loop z [])
   \<and> X (last (z # getDeepZoomLevels_loop z [])) \<le> 1
   \<and> Y (last (z # getDeepZoomLevels_loop z [])) \<le> 1"
proof (rule getDeepZoomLevels_loop.induct
    [of "\<lambda>z _. successively (\<lambda>a b. b = halve a) (z # getDeepZoomLevels_loop z [])
   \<and> X (last (z # getDeepZoomLevels_loop z [])) \<le> 1
   \<and> Y (last (z # getDeepZoomLevels_loop z [])) \<le> 1" z "[]"])
  fix z :: Point and zDimensions :: "Point list"
  assume IH: "\<not> (X z \<le> 1 \<and> Y z \<le> 1) \<Longrightarrow>
    successively (\<lambda>a b. b = halve a) (halve z # getDeepZoomLevels_loop (halve z) [])
   \<and> X (last (halve z # getDeepZoomLevels_loop (halve z) [])) \<le> 1
   \<and> Y (last (halve z # getDeepZoomLevels_loop (halve z) [])) \<le> 1"
  show "successively (\<lambda>a b. b = halve a) (z # getDeepZoomLevels_loop z [])
   \<and> X (last (z # getDeepZoomLevels_loop z [])) \<le> 1
   \<and> Y (last (z # getDeepZoomLevels_loop z [])) \<le> 1"
  proof (cases "X z \<le> 1 \<and> Y z \<le> 1")
    case True
    then show ?thesis by (simp add: chain_small)
  next
    case False
    then show ?thesis using IH [OF False] by (simp add: chain_step)
  qed
qed

lemma halve_pos:
  assumes "1 \<le> X z" and "1 \<le> Y z"
  shows "X (halve z) = \<lceil>real_of_int (X z) / 2\<rceil>" and "Y (halve z) = \<lceil>real_of_int (Y z) / 2\<rceil>"
    and "1 \<le> X (halve z)" and "1 \<le> Y (halve z)"
proof -
  have c: "1 \<le> \<lceil>real_of_int n / 2\<rceil>" if "1 \<le> n" for n :: int
  proof -
    have "0 < real_of_int n / 2" using that by simp
    then show ?thesis by linarith
  qed
  have m: "max 1 (Ceil (real_of_int n / 2)) = real_of_int \<lceil>real_of_int n / 2\<rceil>" if "1 \<le> n" for n :: int
    using c [OF that] by (simp add: Ceil_def max_def)
  show "X (halve z) = \<lceil>real_of_int (X z) / 2\<rceil>" "Y (halve z) = \<lceil>real_of_int (Y z) / 2\<rceil>"
    using assms by (simp_all add: halve_def m int_of_float_of_int)
  then show "1 \<le> X (halve z)" "1 \<le> Y (halve z)" using assms c by simp_all
qed

lemma chain_pos:
  "1 \<le> X z \<and> 1 \<le> Y z \<longrightarrow> (\<forall>p \<in> set (getDeepZoomLevels_loop z []). 1 \<le> X p \<and> 1 \<le> Y p)"
proof (rule getDeepZoomLevels_loop.induct
    [of "\<lambda>z _. 1 \<le> X z \<and> 1 \<le> Y z \<longrightarrow>
                (\<forall>p \<in> set (getDeepZoomLevels_loop z []). 1 \<le> X p \<and> 1 \<le> Y p)" z "[]"])
  fix z :: Point and zDimensions :: "Point list"
  assume IH: "\<not> (X z \<le> 1 \<and> Y z \<le> 1) \<Longrightarrow>
    1 \<le> X (halve z) \<and> 1 \<le> Y (halve z) \<longrightarrow>
    (\<forall>p \<in> set (getDeepZoomLevels_loop (halve z) []). 1 \<le> X p \<and> 1 \<le> Y p)"
  show "1 \<le> X z \<and> 1 \<le> Y z \<longrightarrow>
        (\<forall>p \<in> set (getDeepZoomLevels_loop z []). 1 \<le> X p \<and> 1 \<le> Y p)"
  proof (cases "X z \<le> 1 \<and> Y z \<le> 1")
    case True
    then show ?thesis by (simp add: chain_small)
  next
    case False
    show ?thesis
    proof (intro impI)
      assume z: "1 \<le> X z \<and> 1 \<le> Y z"
      then have h: "1 \<le> X (halve z)" "1 \<le> Y (halve z)"
        using halve_pos(3,4) [of z] by blast+
      with IH [OF False]
      have "\<forall>p \<in> set (getDeepZoomLevels_loop (halve z) []). 1 \<le> X p \<and> 1 \<le> Y p"
        by blast
      with h show "\<forall>p \<in> set (getDeepZoomLevels_loop z []). 1 \<le> X p \<and> 1 \<le> Y p"
        unfolding chain_step [OF False] by simp
    qed
  qed
qed

lemma successively_nth:
  "successively P xs \<Longrightarrow> Suc j < length xs \<Longrightarrow> P (xs ! j) (xs ! Suc j)"
proof (induction xs arbitrary: j)
  case Nil
  then show ?case by simp
next
  case (Cons x xs)
  show ?case
  proof (cases j)
    case 0
    then show ?thesis using Cons.prems by (cases xs) simp_all
  next
    case (Suc k)
    then show ?thesis using Cons.prems Cons.IH [of k] by (cases xs) simp_all
  qed
qed

text \<open>
  Claim C3. For base dimensions of width and height at least 1, \<^verbatim>\<open>getDeepZoomLevels\<close>
  returns a non-empty sequence whose first element is at most \<open>(1, 1)\<close> on both axes and
  whose last element is the base; every element is the componentwise ceiling of half its
  successor; the base \<open>1 \<times> 1\<close> gives exactly one level.
\<close>

theorem pyramid_levels:
  assumes "1 \<le> X b" and "1 \<le> Y b"
  shows "getDeepZoomLevels b \<noteq> []
       \<and> X (hd (getDeepZoomLevels b)) \<le> 1 \<and> Y (hd (getDeepZoomLevels b)) \<le> 1
       \<and> last (getDeepZoomLevels b) = b
       \<and> (\<forall>i. Suc i < length (getDeepZoomLevels b) \<longrightarrow>
              X (getDeepZoomLevels b ! i) = \<lceil>real_of_int (X (getDeepZoomLevels b ! Suc i)) / 2\<rceil>
            \<and> Y (getDeepZoomLevels b ! i) = \<lceil>real_of_int (Y (getDeepZoomLevels b ! Suc i)) / 2\<rceil>)
       \<and> getDeepZoomLevels \<lparr>X = 1, Y = 1\<rparr> = [\<lparr>X = 1, Y = 1\<rparr>]"
proof -
  define l where "l = b # getDeepZoomLevels_loop b []"
  have eq: "getDeepZoomLevels b = rev l"
    unfolding l_def by (rule getDeepZoomLevels_chain)
  have ne: "l \<noteq> []" and hd: "hd l = b" by (simp_all add: l_def)
  have succ: "successively (\<lambda>a b. b = halve a) l"
    and lastX: "X (last l) \<le> 1" and lastY: "Y (last l) \<le> 1"
    unfolding l_def using chain_props [of b] by blast+
  have pos: "\<forall>p \<in> set l. 1 \<le> X p \<and> 1 \<le> Y p"
    unfolding l_def using chain_pos [of b] assms by simp
  have step: "X (rev l ! i) = \<lceil>real_of_int (X (rev l ! Suc i)) / 2\<rceil>
            \<and> Y (rev l ! i) = \<lceil>real_of_int (Y (rev l ! Suc i)) / 2\<rceil>"
    if i: "Suc i < length l" for i
  proof -
    define j where "j = length l - Suc (Suc i)"
    have j: "Suc j < length l" using i by (simp add: j_def)
    have a: "rev l ! Suc i = l ! j" using i by (simp add: rev_nth j_def)
    have "length l - Suc i = Suc j" using i by (simp add: j_def)
    then have b: "rev l ! i = l ! Suc j" using i by (simp add: rev_nth)
    have h: "l ! Suc j = halve (l ! j)" using successively_nth [OF succ j] .
    have "l ! j \<in> set l" using j by simp
    then have p: "1 \<le> X (l ! j)" "1 \<le> Y (l ! j)" using pos by blast+
    show ?thesis unfolding a b h using halve_pos [OF p] by simp
  qed
  have one: "getDeepZoomLevels \<lparr>X = 1, Y = 1\<rparr> = [\<lparr>X = 1, Y = 1\<rparr>]"
    by (simp add: getDeepZoomLevels_chain chain_small)
  have "rev l \<noteq> []" using ne by simp
  moreover have "X (hd (rev l)) \<le> 1" "Y (hd (rev l)) \<le> 1"
    using lastX lastY ne by (simp_all add: hd_rev)
  moreover have "last (rev l) = b" using ne hd by (simp add: last_rev)
  moreover have "\<forall>i. Suc i < length (rev l) \<longrightarrow>
              X (rev l ! i) = \<lceil>real_of_int (X (rev l ! Suc i)) / 2\<rceil>
            \<and> Y (rev l ! i) = \<lceil>real_of_int (Y (rev l ! Suc i)) / 2\<rceil>"
  proof (intro allI impI)
    fix i assume "Suc i < length (rev l)"
    then have "Suc i < length l" by simp
    then show "X (rev l ! i) = \<lceil>real_of_int (X (rev l ! Suc i)) / 2\<rceil>
            \<and> Y (rev l ! i) = \<lceil>real_of_int (Y (rev l ! Suc i)) / 2\<rceil>"
      by (rule step)
  qed
  ultimately show ?thesis
    unfolding eq using one by blast
qed

lemma levels_5_3:
  "getDeepZoomLevels \<lparr>X = 5, Y = 3\<rparr>
   = [\<lparr>X = 1, Y = 1\<rparr>, \<lparr>X = 2, Y = 1\<rparr>, \<lparr>X = 3, Y = 2\<rparr>, \<lparr>X = 5, Y = 3\<rparr>]"
  by (simp add: getDeepZoomLevels_def reverse_eq_rev getDeepZoomLevels_loop.simps halve_def
      Ceil_def int_of_float_def)

theorem pyramid_levels_witness:
  "1 \<le> X \<lparr>X = 5, Y = 3\<rparr> \<and> 1 \<le> Y \<lparr>X = 5, Y = 3\<rparr>
   \<and> getDeepZoomLevels \<lparr>X = 5, Y = 3\<rparr>
       = [\<lparr>X = 1, Y = 1\<rparr>, \<lparr>X = 2, Y = 1\<rparr>, \<lparr>X = 3, Y = 2\<rparr>, \<lparr>X = 5, Y = 3\<rparr>]
   \<and> X (hd (getDeepZoomLevels \<lparr>X = 5, Y = 3\<rparr>)) \<le> 1
   \<and> Y (hd (getDeepZoomLevels \<lparr>X = 5, Y = 3\<rparr>)) \<le> 1
   \<and> last (getDeepZoomLevels \<lparr>X = 5, Y = 3\<rparr>) = \<lparr>X = 5, Y = 3\<rparr>"
proof -
  have h1: "1 \<le> X \<lparr>X = 5, Y = 3\<rparr>" and h2: "1 \<le> Y \<lparr>X = 5, Y = 3\<rparr>" by simp_all
  from pyramid_levels [OF h1 h2]
  have "X (hd (getDeepZoomLevels \<lparr>X = 5, Y = 3\<rparr>)) \<le> 1"
    and "Y (hd (getDeepZoomLevels \<lparr>X = 5, Y = 3\<rparr>)) \<le> 1"
    and "last (getDeepZoomLevels \<lparr>X = 5, Y = 3\<rparr>) = \<lparr>X = 5, Y = 3\<rparr>"
    by blast+
  with h1 h2 levels_5_3 show ?thesis by blast
qed

subsection \<open>Construction and lookup\<close>

lemma length_generateDownsamples: "length (generateDownsamples slide n) = nat n"
  by (simp add: generateDownsamples_def)

lemma length_getDeepZoomTileLevels: "length (getDeepZoomTileLevels ts zs) = length zs"
  by (simp add: getDeepZoomTileLevels_def)

lemma NewDeepZoomGenerator_Inr:
  assumes "NewDeepZoomGenerator slide ts ov lb = Inr dz"
  shows "tileSize dz = ts" and "overlap dz = ov"
    and "level0Offset dz = getLevel0Offset slide lb"
    and "getLevelDimensions slide lb = Inr (levels dz)"
    and "\<exists>d0. index (levels dz) 0 = Inr d0 \<and> deepZoomLevels dz = getDeepZoomLevels d0"
    and "deepZoomTileLevels dz = getDeepZoomTileLevels ts (deepZoomLevels dz)"
    and "downsamples dz = generateDownsamples slide (int (length (deepZoomTileLevels dz)))"
  using assms
  by (auto simp: NewDeepZoomGenerator_def Let_def split: sum.splits)

lemma NewDeepZoomGenerator_lengths:
  assumes "NewDeepZoomGenerator slide ts ov lb = Inr dz"
  shows "length (deepZoomTileLevels dz) = length (downsamples dz)"
    and "length (deepZoomLevels dz) = length (downsamples dz)"
  using NewDeepZoomGenerator_Inr(6,7) [OF assms]
  by (simp_all add: length_generateDownsamples length_getDeepZoomTileLevels)

lemma index_Inr: "0 \<le> i \<Longrightarrow> i < int (length xs) \<Longrightarrow> index xs i = Inr (xs ! nat i)"
  by (simp add: index_def)

lemma index_InrD: "index xs i = Inr x \<Longrightarrow> 0 \<le> i \<and> i < int (length xs) \<and> x = xs ! nat i"
  by (auto simp: index_def split: if_splits)

lemma getDeepZoomOverlap_edges:
  "getDeepZoomOverlap grid ov col row =
     \<lparr>top_edge = (if row = 0 then 0 else ov),
      left = (if col = 0 then 0 else ov),
      bottom = (if row = Y grid - 1 then 0 else ov),
      right = (if col = X grid - 1 then 0 else ov)\<rparr>"
  by (simp add: getDeepZoomOverlap_def boolToInt_def)

text \<open>The result of the lookup on valid input, with the float arithmetic on integers resolved.\<close>

lemma dz_tileInfo_valid:
  assumes "index (downsamples dz) lv = Inr d"
    and "dz_Level dz lv = Inr grid"
    and "index (deepZoomLevels dz) lv = Inr zdim"
    and "0 \<le> col" and "0 \<le> row"
  shows "dz_tileInfo dz lv col row =
     Inr \<lparr>l0Location =
            \<lparr>X = int_of_float (downsample (downsample.slideLevel d)
                      * (bestLevelDownsample d
                         * (real_of_int (tileSize dz * col)
                            - real_of_int (left (getDeepZoomOverlap grid (overlap dz) col row))))
                      + real_of_int (X (level0Offset dz))),
             Y = int_of_float (downsample (downsample.slideLevel d)
                      * (bestLevelDownsample d
                         * (real_of_int (tileSize dz * row)
                            - real_of_int (top_edge (getDeepZoomOverlap grid (overlap dz) col row))))
                      + real_of_int (Y (level0Offset dz)))\<rparr>,
          lSize =
            \<lparr>X = min \<lceil>bestLevelDownsample d
                        * real_of_int (min (tileSize dz) (X zdim - tileSize dz * col)
                            + left (getDeepZoomOverlap grid (overlap dz) col row)
                            + right (getDeepZoomOverlap grid (overlap dz) col row))\<rceil>
                     (X (Point (downsample.slideLevel d))
                      - \<lceil>bestLevelDownsample d
                          * (real_of_int (tileSize dz * col)
                             - real_of_int (left (getDeepZoomOverlap grid (overlap dz) col row)))\<rceil>),
             Y = min \<lceil>bestLevelDownsample d
                        * real_of_int (min (tileSize dz) (Y zdim - tileSize dz * row)
                            + top_edge (getDeepZoomOverlap grid (overlap dz) col row)
                            + bottom (getDeepZoomOverlap grid (overlap dz) col row))\<rceil>
                     (Y (Point (downsample.slideLevel d))
                      - \<lceil>bestLevelDownsample d
                          * (real_of_int (tileSize dz * row)
                             - real_of_int (top_edge (getDeepZoomOverlap grid (overlap dz) col row)))\<rceil>)\<rparr>,
          zSize =
            \<lparr>X = min (tileSize dz) (X zdim - tileSize dz * col)
                   + left (getDeepZoomOverlap grid (overlap dz) col row)
                   + right (getDeepZoomOverlap grid (overlap dz) col row),
             Y = min (tileSize dz) (Y zdim - tileSize dz * row)
                   + top_edge (getDeepZoomOverlap grid (overlap dz) col row)
                   + bottom (getDeepZoomOverlap grid (overlap dz) col row)\<rparr>,
          tileInfo.slideLevel = level (downsample.slideLevel d)\<rparr>"
proof -
  have lv: "\<not> (lv < 0 \<or> int (length (downsamples dz)) < lv)"
    using index_InrD [OF assms(1)] by simp
  have cr: "\<not> (col < 0 \<or> row < 0)" using assms(4,5) by simp
  have m: "int_of_float (min (Ceil a) (real_of_int n - Ceil b)) = min \<lceil>a\<rceil> (n - \<lceil>b\<rceil>)" for a b n
  proof -
    have "min (Ceil a) (real_of_int n - Ceil b) = real_of_int (min \<lceil>a\<rceil> (n - \<lceil>b\<rceil>))"
      by (simp add: Ceil_def min_def)
    then show ?thesis by (simp only: int_of_float_of_int)
  qed
  show ?thesis
    unfolding dz_tileInfo_def
    by (simp only: lv cr if_False assms sum.case Let_def int_of_float_min m Point.simps)
qed

lemma dz_tileInfo_in_range:
  assumes built: "NewDeepZoomGenerator slide ts ov lb = Inr dz"
    and lv: "0 \<le> lv" "lv < dz_LevelsCount dz"
  shows "index (downsamples dz) lv = Inr (downsamples dz ! nat lv)"
    and "dz_Level dz lv = Inr (deepZoomTileLevels dz ! nat lv)"
    and "index (deepZoomLevels dz) lv = Inr (deepZoomLevels dz ! nat lv)"
  using lv NewDeepZoomGenerator_lengths [OF built]
  by (simp_all add: dz_LevelsCount_def dz_Level_def index_def)

subsection \<open>Tile Coordinate Mapper\<close>




subsection \<open>Tile Enumerator\<close>

text \<open>
  Claim C9. For every \<open>(level, col, row)\<close> that the loops of \<^verbatim>\<open>Iter\<close> generate, that is
  \<open>0 \<le> level < levelCount\<close>, \<open>0 \<le> row < rows\<close> and \<open>0 \<le> col < cols\<close> of that level, the
  tile lookup returns a tile and no error, so the error that \<^verbatim>\<open>Iter\<close> discards never
  occurs.
\<close>

theorem enumerated_tiles_never_fail:
  assumes "NewDeepZoomGenerator slide ts ov lb = Inr dz"
    and "0 \<le> lv" and "lv < dz_LevelsCount dz"
    and "dz_Level dz lv = Inr grid"
    and "0 \<le> row" and "row < Y grid" and "0 \<le> col" and "col < X grid"
  shows "\<exists>ti. dz_tileInfo dz lv col row = Inr ti
            \<and> dz_Tile dz lv col row = Inr \<lparr>Level = lv, Row = row, Col = col, tileInfo = ti\<rparr>"
proof -
  note r = dz_tileInfo_in_range [OF assms(1-3)]
  have "\<exists>ti. dz_tileInfo dz lv col row = Inr ti"
    using dz_tileInfo_valid [OF r(1) r(2) r(3) assms(7) assms(5)] by blast
  then show ?thesis by (auto simp: dz_Tile_def)
qed

theorem enumerated_tiles_never_fail_witness:
  "NewDeepZoomGenerator small_slide 1 0 False = Inr small_generator
   \<and> (0::int) \<le> 1 \<and> 1 < dz_LevelsCount small_generator
   \<and> dz_Level small_generator 1 = Inr \<lparr>X = 2, Y = 2\<rparr>
   \<and> (0::int) \<le> 1 \<and> 1 < Y \<lparr>X = 2, Y = 2\<rparr> \<and> 1 < X \<lparr>X = 2, Y = 2\<rparr>
   \<and> (\<exists>ti. dz_tileInfo small_generator 1 1 1 = Inr ti
            \<and> dz_Tile small_generator 1 1 1 = Inr \<lparr>Level = 1, Row = 1, Col = 1, tileInfo = ti\<rparr>)"
proof -
  have a: "1 < dz_LevelsCount small_generator"
    by (simp add: dz_LevelsCount_def small_generator_def)
  have b: "dz_Level small_generator 1 = Inr \<lparr>X = 2, Y = 2\<rparr>"
    by (simp add: dz_Level_def index_def small_generator_def)
  have c: "(1::int) < Y \<lparr>X = 2, Y = 2\<rparr>" "(1::int) < X \<lparr>X = 2, Y = 2\<rparr>" "(0::int) \<le> 1"
    by simp_all
  show ?thesis
    using enumerated_tiles_never_fail [OF small_generator_built c(3) a b c(3) c(1) c(3) c(2)]
      small_generator_built a b c
    by blast
qed

subsection \<open>Overlap\<close>

lemma built_grid:
  assumes built: "NewDeepZoomGenerator slide ts ov lb = Inr dz"
    and g: "dz_Level dz lv = Inr grid"
    and z: "index (deepZoomLevels dz) lv = Inr zdim"
  shows "grid = \<lparr>X = tileCount ts (X zdim), Y = tileCount ts (Y zdim)\<rparr>"
proof -
  have i: "0 \<le> lv" "lv < int (length (deepZoomLevels dz))" "zdim = deepZoomLevels dz ! nat lv"
    using index_InrD [OF z] by simp_all
  have "grid = deepZoomTileLevels dz ! nat lv"
    using index_InrD [OF g [unfolded dz_Level_def]] by simp
  also have "\<dots> = getDeepZoomTileLevels ts (deepZoomLevels dz) ! nat lv"
    using NewDeepZoomGenerator_Inr(6) [OF built] by simp
  finally show ?thesis using i by (simp add: getDeepZoomTileLevels_def)
qed

text \<open>
  Claim C6. For every valid \<open>(level, col, row)\<close> the overlap is added on interior edges
  only: the left overlap is 0 when \<open>col = 0\<close>, the top overlap is 0 when \<open>row = 0\<close>, the
  right overlap is 0 in the last column and the bottom overlap is 0 in the last row of the
  level's grid; otherwise each is the fixed overlap. The output size is the unpadded size
  plus these. With tile size 512, overlap 1 and a level of width 1024 the grid has 2
  columns and both have output width 513.
\<close>

theorem overlap_on_interior_edges:
  assumes "NewDeepZoomGenerator slide ts ov lb = Inr dz"
    and "dz_Level dz lv = Inr grid"
    and "index (deepZoomLevels dz) lv = Inr zdim"
    and "0 \<le> col" and "col < X grid" and "0 \<le> row" and "row < Y grid"
  shows "getDeepZoomOverlap grid ov col row =
           \<lparr>top_edge = (if row = 0 then 0 else ov),
            left = (if col = 0 then 0 else ov),
            bottom = (if row = Y grid - 1 then 0 else ov),
            right = (if col = X grid - 1 then 0 else ov)\<rparr>
       \<and> (\<exists>ti. dz_tileInfo dz lv col row = Inr ti
              \<and> X (zSize ti) = min ts (X zdim - ts * col)
                   + (if col = 0 then 0 else ov) + (if col = X grid - 1 then 0 else ov)
              \<and> Y (zSize ti) = min ts (Y zdim - ts * row)
                   + (if row = 0 then 0 else ov) + (if row = Y grid - 1 then 0 else ov)
              \<and> (ts = 512 \<and> ov = 1 \<and> X zdim = 1024 \<longrightarrow> X grid = 2 \<and> X (zSize ti) = 513))"
proof -
  note built = assms(1)
  have lv: "0 \<le> lv" "lv < dz_LevelsCount dz"
    using index_InrD [OF assms(3)] NewDeepZoomGenerator_lengths(2) [OF built]
    by (simp_all add: dz_LevelsCount_def)
  note r = dz_tileInfo_in_range [OF built lv]
  have p: "tileSize dz = ts" "overlap dz = ov"
    using NewDeepZoomGenerator_Inr(1,2) [OF built] by simp_all
  have ti: "dz_tileInfo dz lv col row = Inr ti \<Longrightarrow>
        X (zSize ti) = min ts (X zdim - ts * col)
                   + (if col = 0 then 0 else ov) + (if col = X grid - 1 then 0 else ov)
      \<and> Y (zSize ti) = min ts (Y zdim - ts * row)
                   + (if row = 0 then 0 else ov) + (if row = Y grid - 1 then 0 else ov)" for ti
    unfolding dz_tileInfo_valid [OF r(1) assms(2) assms(3) assms(4) assms(6)] p
    by (auto simp: getDeepZoomOverlap_edges)
  obtain ti where t: "dz_tileInfo dz lv col row = Inr ti"
    using dz_tileInfo_valid [OF r(1) assms(2) assms(3) assms(4) assms(6)] by blast
  have special: "X grid = 2 \<and> X (zSize ti) = 513" if "ts = 512" "ov = 1" "X zdim = 1024"
  proof -
    have "X grid = tileCount 512 1024"
      using built_grid [OF built assms(2) assms(3)] that by simp
    then have g2: "X grid = 2" by (simp add: tileCount_def Ceil_def int_of_float_def)
    then have "col = 0 \<or> col = 1" using assms(4,5) by auto
    then show ?thesis using ti [OF t] g2 that by auto
  qed
  show ?thesis using t ti [OF t] special by (auto simp: getDeepZoomOverlap_edges)
qed

lemma levels_1024_768:
  "getDeepZoomLevels \<lparr>X = 1024, Y = 768\<rparr> =
     [\<lparr>X = 1, Y = 1\<rparr>, \<lparr>X = 2, Y = 2\<rparr>, \<lparr>X = 4, Y = 3\<rparr>, \<lparr>X = 8, Y = 6\<rparr>, \<lparr>X = 16, Y = 12\<rparr>,
      \<lparr>X = 32, Y = 24\<rparr>, \<lparr>X = 64, Y = 48\<rparr>, \<lparr>X = 128, Y = 96\<rparr>, \<lparr>X = 256, Y = 192\<rparr>,
      \<lparr>X = 512, Y = 384\<rparr>, \<lparr>X = 1024, Y = 768\<rparr>]"
  by (simp add: getDeepZoomLevels_def reverse_eq_rev getDeepZoomLevels_loop.simps halve_def
      Ceil_def int_of_float_def)

lemma wide_generator_built:
  "\<exists>dz. NewDeepZoomGenerator wide_slide 512 1 False = Inr dz
      \<and> dz_Level dz 10 = Inr \<lparr>X = 2, Y = 2\<rparr>
      \<and> index (deepZoomLevels dz) 10 = Inr \<lparr>X = 1024, Y = 768\<rparr>"
  by (simp add: NewDeepZoomGenerator_def getLevelDimensions_def wide_slide_def wide_dims_def
      index_def Let_def levels_1024_768 dz_Level_def getDeepZoomTileLevels_def tileCount_def
      Ceil_def int_of_float_def)

theorem overlap_on_interior_edges_witness:
  "\<exists>dz. NewDeepZoomGenerator wide_slide 512 1 False = Inr dz
      \<and> dz_Level dz 10 = Inr \<lparr>X = 2, Y = 2\<rparr>
      \<and> index (deepZoomLevels dz) 10 = Inr \<lparr>X = 1024, Y = 768\<rparr>
      \<and> (\<exists>ti. dz_tileInfo dz 10 0 0 = Inr ti \<and> X (zSize ti) = 513)
      \<and> (\<exists>ti. dz_tileInfo dz 10 1 0 = Inr ti \<and> X (zSize ti) = 513)"
proof -
  obtain dz where b: "NewDeepZoomGenerator wide_slide 512 1 False = Inr dz"
    and g: "dz_Level dz 10 = Inr \<lparr>X = 2, Y = 2\<rparr>"
    and z: "index (deepZoomLevels dz) 10 = Inr \<lparr>X = 1024, Y = 768\<rparr>"
    using wide_generator_built by blast
  have "\<exists>ti. dz_tileInfo dz 10 0 0 = Inr ti \<and> X (zSize ti) = 513"
    using overlap_on_interior_edges [OF b g z, of 0 0] by auto
  moreover have "\<exists>ti. dz_tileInfo dz 10 1 0 = Inr ti \<and> X (zSize ti) = 513"
    using overlap_on_interior_edges [OF b g z, of 1 0] by auto
  ultimately show ?thesis using b g z by blast
qed

subsection \<open>Unpadded tiles cover the level\<close>

lemma sum_min_prefix:
  assumes ts: "0 < ts" and w: "0 \<le> w"
  shows "ts * (int n - 1) < w \<Longrightarrow>
         (\<Sum>c\<leftarrow>[0..int n - 1]. min ts (w - ts * c)) = min (ts * int n) w"
proof (induction n)
  case 0
  then show ?case using w by simp
next
  case (Suc n)
  have lt: "ts * int n < w" using Suc.prems by simp
  have "ts * (int n - 1) \<le> ts * int n" using ts by (simp add: right_diff_distrib)
  then have "ts * (int n - 1) < w" using lt by linarith
  then have ih: "(\<Sum>c\<leftarrow>[0..int n - 1]. min ts (w - ts * c)) = min (ts * int n) w"
    by (rule Suc.IH)
  have up: "[0..int (Suc n) - 1] = [0..int n - 1] @ [int n]"
    using upto_rec2 [of 0 "int n"] by simp
  have "ts * int (Suc n) = ts * int n + ts" by (simp add: distrib_left)
  then show ?case unfolding up using ih lt by (simp add: min_def)
qed

lemma sum_min_tiles:
  assumes "0 < ts" and "1 \<le> w"
  shows "(\<Sum>c\<leftarrow>[0..tileCount ts w - 1]. min ts (w - ts * c)) = w"
proof -
  define k where "k = tileCount ts w"
  have k: "1 \<le> k" "w \<le> k * ts" "(k - 1) * ts < w"
    using tileCount_pos [OF assms] tileCount_upper [OF assms(1), of w]
      tileCount_lower [OF assms(1), of w] by (simp_all add: k_def)
  have ik: "int (nat k) = k" using k(1) by simp
  have "(\<Sum>c\<leftarrow>[0..int (nat k) - 1]. min ts (w - ts * c)) = min (ts * int (nat k)) w"
    using assms k(3) by (intro sum_min_prefix) (simp_all add: ik mult.commute)
  then show ?thesis using k(2) unfolding ik k_def [symmetric] by (simp add: mult.commute)
qed

lemma unpadded_width_valid:
  assumes "index (downsamples dz) lv = Inr d"
    and "dz_Level dz lv = Inr grid"
    and "index (deepZoomLevels dz) lv = Inr zdim"
    and "0 \<le> col" and "0 \<le> row"
  shows "unpadded_width dz lv col row = min (tileSize dz) (X zdim - tileSize dz * col)"
    and "unpadded_height dz lv col row = min (tileSize dz) (Y zdim - tileSize dz * row)"
  unfolding unpadded_width_def unpadded_height_def dz_tileInfo_valid [OF assms]
  by (simp_all add: assms(2))

text \<open>
  Claim C5. For a virtual level of width and height at least 1, a tile size above 0 and
  the grid \<open>cols = \<lceil>width / tileSize\<rceil>\<close>, \<open>rows = \<lceil>height / tileSize\<rceil>\<close>, the unpadded
  width of the tile in column \<open>c\<close> is \<open>min tileSize (width - tileSize * c)\<close>, and the
  unpadded widths of the columns \<open>0, \<dots>, cols - 1\<close> add up to the width of the level; the
  unpadded heights of the rows add up to its height.
\<close>

theorem unpadded_sizes_tile_the_level:
  assumes "NewDeepZoomGenerator slide ts ov lb = Inr dz"
    and "dz_Level dz lv = Inr grid"
    and "index (deepZoomLevels dz) lv = Inr zdim"
    and "0 < ts" and "1 \<le> X zdim" and "1 \<le> Y zdim"
    and "0 \<le> col" and "0 \<le> row"
  shows "X grid = \<lceil>real_of_int (X zdim) / real_of_int ts\<rceil>
       \<and> Y grid = \<lceil>real_of_int (Y zdim) / real_of_int ts\<rceil>
       \<and> (\<forall>c \<in> set [0..X grid - 1]. unpadded_width dz lv c row = min ts (X zdim - ts * c))
       \<and> (\<forall>r \<in> set [0..Y grid - 1]. unpadded_height dz lv col r = min ts (Y zdim - ts * r))
       \<and> (\<Sum>c\<leftarrow>[0..X grid - 1]. unpadded_width dz lv c row) = X zdim
       \<and> (\<Sum>r\<leftarrow>[0..Y grid - 1]. unpadded_height dz lv col r) = Y zdim"
proof -
  note built = assms(1)
  have lv: "0 \<le> lv" "lv < dz_LevelsCount dz"
    using index_InrD [OF assms(3)] NewDeepZoomGenerator_lengths(2) [OF built]
    by (simp_all add: dz_LevelsCount_def)
  note r = dz_tileInfo_in_range [OF built lv]
  have p: "tileSize dz = ts" using NewDeepZoomGenerator_Inr(1) [OF built] .
  have g: "X grid = tileCount ts (X zdim)" "Y grid = tileCount ts (Y zdim)"
    using built_grid [OF built assms(2) assms(3)] by simp_all
  have w: "unpadded_width dz lv c row = min ts (X zdim - ts * c)" if "0 \<le> c" for c
    using unpadded_width_valid(1) [OF r(1) assms(2) assms(3) that assms(8)] p by simp
  have h: "unpadded_height dz lv col r = min ts (Y zdim - ts * r)" if "0 \<le> r" for r
    using unpadded_width_valid(2) [OF r(1) assms(2) assms(3) assms(7) that] p by simp
  have mw: "map (\<lambda>c. unpadded_width dz lv c row) [0..X grid - 1]
          = map (\<lambda>c. min ts (X zdim - ts * c)) [0..X grid - 1]"
    by (rule map_cong) (simp_all add: w)
  have mh: "map (\<lambda>r. unpadded_height dz lv col r) [0..Y grid - 1]
          = map (\<lambda>r. min ts (Y zdim - ts * r)) [0..Y grid - 1]"
    by (rule map_cong) (simp_all add: h)
  have sw: "(\<Sum>c\<leftarrow>[0..X grid - 1]. unpadded_width dz lv c row) = X zdim"
  proof -
    have "(\<Sum>c\<leftarrow>[0..X grid - 1]. unpadded_width dz lv c row)
        = (\<Sum>c\<leftarrow>[0..X grid - 1]. min ts (X zdim - ts * c))"
      by (simp only: mw)
    also have "\<dots> = X zdim"
      unfolding g by (rule sum_min_tiles [OF assms(4) assms(5)])
    finally show ?thesis .
  qed
  have sh: "(\<Sum>r\<leftarrow>[0..Y grid - 1]. unpadded_height dz lv col r) = Y zdim"
  proof -
    have "(\<Sum>r\<leftarrow>[0..Y grid - 1]. unpadded_height dz lv col r)
        = (\<Sum>r\<leftarrow>[0..Y grid - 1]. min ts (Y zdim - ts * r))"
      by (simp only: mh)
    also have "\<dots> = Y zdim"
      unfolding g by (rule sum_min_tiles [OF assms(4) assms(6)])
    finally show ?thesis .
  qed
  show ?thesis using sw sh w h g by (simp add: tileCount_ceiling)
qed

lemma small_generator_3_built:
  "\<exists>dz. NewDeepZoomGenerator small_slide 3 0 False = Inr dz
      \<and> dz_Level dz 2 = Inr \<lparr>X = 2, Y = 2\<rparr>
      \<and> index (deepZoomLevels dz) 2 = Inr \<lparr>X = 4, Y = 4\<rparr>"
  by (simp add: NewDeepZoomGenerator_def getLevelDimensions_def small_slide_def small_dims_def
      index_def Let_def dz_Level_def getDeepZoomTileLevels_def tileCount_def
      getDeepZoomLevels_def reverse_eq_rev getDeepZoomLevels_loop.simps halve_def
      Ceil_def int_of_float_def upto_0_1)

theorem unpadded_sizes_tile_the_level_witness:
  "\<exists>dz. NewDeepZoomGenerator small_slide 3 0 False = Inr dz
      \<and> dz_Level dz 2 = Inr \<lparr>X = 2, Y = 2\<rparr>
      \<and> index (deepZoomLevels dz) 2 = Inr \<lparr>X = 4, Y = 4\<rparr>
      \<and> unpadded_width dz 2 0 0 = 3 \<and> unpadded_width dz 2 1 0 = 1
      \<and> (\<Sum>c\<leftarrow>[0..1]. unpadded_width dz 2 c 0) = 4
      \<and> (\<Sum>r\<leftarrow>[0..1]. unpadded_height dz 2 0 r) = 4"
proof -
  obtain dz where b: "NewDeepZoomGenerator small_slide 3 0 False = Inr dz"
    and g: "dz_Level dz 2 = Inr \<lparr>X = 2, Y = 2\<rparr>"
    and z: "index (deepZoomLevels dz) 2 = Inr \<lparr>X = 4, Y = 4\<rparr>"
    using small_generator_3_built by blast
  have "unpadded_width dz 2 0 0 = 3 \<and> unpadded_width dz 2 1 0 = 1
      \<and> (\<Sum>c\<leftarrow>[0..1]. unpadded_width dz 2 c 0) = 4
      \<and> (\<Sum>r\<leftarrow>[0..1]. unpadded_height dz 2 0 r) = 4"
    using unpadded_sizes_tile_the_level [OF b g z, of 0 0] by (simp add: upto_0_1)
  then show ?thesis using b g z by blast
qed

subsection \<open>Level-0 offset\<close>















subsection \<open>Enumeration as a list\<close>

lemma for_each_append:
  assumes "\<And>x s. x \<in> set xs \<Longrightarrow> body x s = Inr (s @ g x)"
  shows "for_each xs body s = Inr (s @ concat (map g xs))"
  using assms
proof (induction xs arbitrary: s)
  case Nil
  then show ?case by simp
next
  case (Cons x xs)
  have "body x s = Inr (s @ g x)" using Cons.prems by simp
  moreover have "for_each xs body (s @ g x) = Inr ((s @ g x) @ concat (map g xs))"
    using Cons.prems by (intro Cons.IH) simp
  ultimately show ?case by simp
qed

lemma dz_Tile_in_range:
  assumes built: "NewDeepZoomGenerator slide ts ov lb = Inr dz"
    and lv: "0 \<le> lv" "lv < dz_LevelsCount dz" and cr: "0 \<le> col" "0 \<le> row"
  shows "dz_Tile dz lv col row = Inr (sent_tile dz lv col row)"
    and "Level (sent_tile dz lv col row) = lv"
    and "Row (sent_tile dz lv col row) = row"
    and "Col (sent_tile dz lv col row) = col"
proof -
  note r = dz_tileInfo_in_range [OF built lv]
  obtain ti where "dz_tileInfo dz lv col row = Inr ti"
    using dz_tileInfo_valid [OF r(1) r(2) r(3) cr] by blast
  then have t: "dz_Tile dz lv col row = Inr \<lparr>Level = lv, Row = row, Col = col, tileInfo = ti\<rparr>"
    by (simp add: dz_Tile_def)
  then show "dz_Tile dz lv col row = Inr (sent_tile dz lv col row)"
    and "Level (sent_tile dz lv col row) = lv"
    and "Row (sent_tile dz lv col row) = row"
    and "Col (sent_tile dz lv col row) = col"
    by (simp_all add: sent_tile_def)
qed

lemma dz_Iter_built:
  assumes built: "NewDeepZoomGenerator slide ts ov lb = Inr dz"
  shows "dz_Iter dz = Inr (all_tiles dz)"
proof -
  have inner: "for_each [0..X grid - 1]
                 (\<lambda>col ch. case dz_Tile dz lv col row of
                              Inr tile \<Rightarrow> Inr (ch @ [tile])
                            | Inl e \<Rightarrow> if is_panic e then Inl e else Inr (ch @ [zero_Tile])) ch
               = Inr (ch @ concat (map (\<lambda>col. [sent_tile dz lv col row]) [0..X grid - 1]))"
    if "0 \<le> lv" "lv < dz_LevelsCount dz" "0 \<le> row" for lv row grid ch
  proof (rule for_each_append)
    fix col s assume "col \<in> set [0..X grid - 1]"
    then have "0 \<le> col" by simp
    then show "(case dz_Tile dz lv col row of
                  Inr tile \<Rightarrow> Inr (s @ [tile])
                | Inl e \<Rightarrow> if is_panic e then Inl e else Inr (s @ [zero_Tile]))
               = Inr (s @ [sent_tile dz lv col row])"
      using dz_Tile_in_range(1) [OF built that(1,2) _ that(3)] by simp
  qed
  have c1: "concat (map (\<lambda>col. [f col]) xs) = map f xs" for f :: "int \<Rightarrow> Tile" and xs
    by (induction xs) simp_all
  have middle: "for_each [0..Y grid - 1]
                  (\<lambda>row ch. for_each [0..X grid - 1]
                     (\<lambda>col ch. case dz_Tile dz lv col row of
                              Inr tile \<Rightarrow> Inr (ch @ [tile])
                            | Inl e \<Rightarrow> if is_panic e then Inl e else Inr (ch @ [zero_Tile])) ch) ch
               = Inr (ch @ level_tiles dz lv grid)"
    if "0 \<le> lv" "lv < dz_LevelsCount dz" for lv grid ch
    unfolding level_tiles_def
  proof (rule for_each_append)
    fix row s assume "row \<in> set [0..Y grid - 1]"
    then have "0 \<le> row" by simp
    then show "for_each [0..X grid - 1]
                 (\<lambda>col ch. case dz_Tile dz lv col row of
                              Inr tile \<Rightarrow> Inr (ch @ [tile])
                            | Inl e \<Rightarrow> if is_panic e then Inl e else Inr (ch @ [zero_Tile])) s
               = Inr (s @ map (\<lambda>col. sent_tile dz lv col row) [0..X grid - 1])"
      using inner [OF that, of row grid s] by (simp only: c1)
  qed
  show ?thesis
    unfolding dz_Iter_def all_tiles_def
  proof (rule for_each_append [where s = "[]", simplified])
    fix lv s assume "lv \<in> set [0..dz_LevelsCount dz - 1]"
    then have lv: "0 \<le> lv" "lv < dz_LevelsCount dz" by simp_all
    have g: "dz_Level dz lv = Inr (deepZoomTileLevels dz ! nat lv)"
      using dz_tileInfo_in_range(2) [OF built lv] .
    show "(case dz_Level dz lv of
             Inl e \<Rightarrow> Inl e
           | Inr grid \<Rightarrow>
               for_each [0..Y grid - 1]
                 (\<lambda>row ch. for_each [0..X grid - 1]
                    (\<lambda>col ch. case dz_Tile dz lv col row of
                              Inr tile \<Rightarrow> Inr (ch @ [tile])
                            | Inl e \<Rightarrow> if is_panic e then Inl e else Inr (ch @ [zero_Tile])) ch) s)
          = Inr (s @ level_tiles dz lv (deepZoomTileLevels dz ! nat lv))"
      unfolding g using middle [OF lv] by simp
  qed
qed

end
